theory Spec2Isabelle
  imports Main "HOL-Library.Sublist"
begin

section \<open>The comment controller of the terraform-cdk action (src/comment.ts)\<close>

text \<open>
  The controller posts a status message as a comment on a pull request or on a commit.
  Everything it does beyond computing strings is a call to the remote platform or to the
  action's reporter (\<open>core.debug\<close>, \<open>core.setFailed\<close>). The model makes both explicit:
  every asynchronous method returns its result (\<open>Inl\<close> for an exception that propagates,
  \<open>Inr\<close> for a normal return) together with the events it issued, in order.
  Strings are \<open>string\<close>; numbers (pull-request numbers, comment ids) are \<open>int\<close>.
\<close>

subsection \<open>Data\<close>

text \<open>
  Modelled from the spec: the interface \<open>Inputs\<close>, which comment.ts imports from
  \<open>./models\<close> and does not declare itself. It holds the comment mode, the flag
  "update previous comment" and the five identity-relevant fields, taken as strings; any
  further field of the interface lives in the record's extension.
\<close>
record Inputs =
  commentMode :: string
  updateComment :: bool
  cdktfVersion :: string
  terraformVersion :: string
  workingDirectory :: string
  stackName :: string
  mode :: string

text \<open>\<open>context.repo\<close>: the owner and the name of the repository.\<close>
record RepoRef =
  owner :: string
  repo_name :: string

text \<open>
  The part of \<open>context.payload\<close> the controller reads: \<open>pull_request?.number\<close> and
  \<open>repository?.full_name\<close>, \<open>None\<close> where the chain yields \<open>undefined\<close>.
\<close>
record Payload =
  pull_request_number :: "int option"
  repository_full_name :: "string option"

record Context =
  sha :: "string option"
  repo :: RepoRef
  payload :: Payload

text \<open>A remote comment: its id and its body, which may be absent.\<close>
record Comment =
  id_comment :: int
  body :: "string option"

record SearchItem =
  number :: int

text \<open>
  \<open>result.data\<close> of a search: the items, and the text \<open>JSON.stringify(result.data, null, 2)\<close>
  that the debug log prints (the data has more fields than the controller reads, so its
  rendering comes with the response).
\<close>
record SearchData =
  items :: "SearchItem list"
  data_json :: string

text \<open>A failed request (status and message); the controller catches none of them.\<close>
datatype error = RequestError int string

text \<open>
  A paginated listing as the remote platform serves it, one node per request: the request
  fails, or it returns the last page, or it returns a page that links to a next one.
\<close>
datatype 'a paged = Fail error | Last "'a list" | More "'a list" "'a paged"

text \<open>The capabilities of the remote platform the controller uses, as their responses.\<close>
record Octokit =
  search_issuesAndPullRequests :: "string \<Rightarrow> error + SearchData"
  issues_listComments :: "RepoRef \<Rightarrow> int \<Rightarrow> Comment paged"
  repos_listCommentsForCommit :: "RepoRef \<Rightarrow> string \<Rightarrow> Comment paged"
  issues_updateComment :: "RepoRef \<Rightarrow> int \<Rightarrow> string \<Rightarrow> error + unit"
  issues_createComment :: "RepoRef \<Rightarrow> int \<Rightarrow> string \<Rightarrow> error + unit"
  repos_updateCommitComment :: "RepoRef \<Rightarrow> int \<Rightarrow> string \<Rightarrow> error + unit"
  repos_createCommitComment :: "RepoRef \<Rightarrow> string \<Rightarrow> string \<Rightarrow> error + unit"

record CommentControllerConfig =
  inputs :: Inputs
  ctx :: Context
  octokit :: Octokit

text \<open>
  What an invocation does to the outside: the reporter's two calls, and the requests to the
  remote platform with their parameters (a listing request carries its page number).
\<close>
datatype event =
    Debug string
  | SetFailed string
  | SearchIssuesAndPullRequests string
  | ListComments RepoRef int nat
  | ListCommentsForCommit RepoRef string nat
  | UpdateComment RepoRef int string
  | CreateComment RepoRef int string
  | UpdateCommitComment RepoRef int string
  | CreateCommitComment RepoRef string string

type_synonym 'a async = "(error + 'a) \<times> event list"

fun is_search :: "event \<Rightarrow> bool" where
  "is_search (SearchIssuesAndPullRequests q) = True"
| "is_search e = False"

fun is_listing :: "event \<Rightarrow> bool" where
  "is_listing (ListComments r n p) = True"
| "is_listing (ListCommentsForCommit r s p) = True"
| "is_listing e = False"

fun is_update :: "event \<Rightarrow> bool" where
  "is_update (UpdateComment r c b) = True"
| "is_update (UpdateCommitComment r c b) = True"
| "is_update e = False"

fun is_create :: "event \<Rightarrow> bool" where
  "is_create (CreateComment r n b) = True"
| "is_create (CreateCommitComment r s b) = True"
| "is_create e = False"

definition is_write :: "event \<Rightarrow> bool" where
  "is_write e = (is_update e \<or> is_create e)"

definition is_remote :: "event \<Rightarrow> bool" where
  "is_remote e = (is_search e \<or> is_listing e \<or> is_update e \<or> is_create e)"

subsection \<open>JavaScript's truthiness, template literals and \<open>includes\<close>\<close>

text \<open>A string is falsy when it is undefined or empty, a number when it is undefined or 0.\<close>
definition truthy_string :: "string option \<Rightarrow> bool" where
  "truthy_string s = (case s of None \<Rightarrow> False | Some v \<Rightarrow> v \<noteq> [])"

definition truthy_number :: "int option \<Rightarrow> bool" where
  "truthy_number n = (case n of None \<Rightarrow> False | Some v \<Rightarrow> v \<noteq> 0)"

text \<open>A possibly undefined string inside a template literal.\<close>
definition template :: "string option \<Rightarrow> string" where
  "template s = (case s of None \<Rightarrow> ''undefined'' | Some v \<Rightarrow> v)"

text \<open>\<open>s.includes(t)\<close>: \<open>t\<close> occurs in \<open>s\<close> as a contiguous substring.\<close>
fun String_includes :: "string \<Rightarrow> string \<Rightarrow> bool" where
  "String_includes [] t = (t = [])"
| "String_includes (c # s) t = (prefix t (c # s) \<or> String_includes s t)"

text \<open>\<open>comment.body?.includes(tag)\<close>, read as a condition: undefined is falsy.\<close>
definition body_includes :: "string \<Rightarrow> Comment \<Rightarrow> bool" where
  "body_includes tag comment = (case body comment of None \<Rightarrow> False | Some b \<Rightarrow> String_includes b tag)"

subsection \<open>The identity tag\<close>

definition hex_digit :: "nat \<Rightarrow> char" where
  "hex_digit n = ''0123456789abcdef'' ! (n mod 16)"

text \<open>
  \<open>JSON.stringify\<close> of a string: the seven short escapes, \<open>\u00XX\<close> for the other
  characters below the space, every other character as it is, between double quotes.
\<close>
definition json_escape :: "char \<Rightarrow> string" where
  "json_escape c =
     (if c = CHR 0x08 then [CHR 0x5C, CHR ''b'']
      else if c = CHR 0x09 then [CHR 0x5C, CHR ''t'']
      else if c = CHR 0x0A then [CHR 0x5C, CHR ''n'']
      else if c = CHR 0x0C then [CHR 0x5C, CHR ''f'']
      else if c = CHR 0x0D then [CHR 0x5C, CHR ''r'']
      else if c = CHR 0x22 then [CHR 0x5C, CHR 0x22]
      else if c = CHR 0x5C then [CHR 0x5C, CHR 0x5C]
      else if (of_char c :: nat) < 32
        then [CHR 0x5C, CHR ''u'', CHR ''0'', CHR ''0'',
              hex_digit (of_char c div 16), hex_digit (of_char c)]
      else [c])"

definition json_string :: "string \<Rightarrow> string" where
  "json_string s = [CHR 0x22] @ concat (map json_escape s) @ [CHR 0x22]"

definition json_member :: "string \<Rightarrow> string \<Rightarrow> string" where
  "json_member k v = json_string k @ '':'' @ json_string v"

text \<open>
  \<open>getCommentTag\<close>: the options object holds the five fields in the order
  cdktfVersion, terraformVersion, workingDirectory, stackName, mode; its JSON text is
  hashed by \<open>hashString\<close> (the hexadecimal MD5 digest of Node's crypto module, the
  parameter \<open>md5\<close>) and the hash is wrapped in an HTML comment.
\<close>
definition JSON_stringify_options :: "string \<Rightarrow> string \<Rightarrow> string \<Rightarrow> string \<Rightarrow> string \<Rightarrow> string" where
  "JSON_stringify_options cv tv wd sn m =
     ''{'' @ json_member ''cdktfVersion'' cv @ '','' @
             json_member ''terraformVersion'' tv @ '','' @
             json_member ''workingDirectory'' wd @ '','' @
             json_member ''stackName'' sn @ '','' @
             json_member ''mode'' m @ ''}''"

definition hashString :: "(string \<Rightarrow> string) \<Rightarrow> string \<Rightarrow> string" where
  "hashString md5 str = md5 str"

definition getCommentTag :: "(string \<Rightarrow> string) \<Rightarrow> 'a Inputs_scheme \<Rightarrow> string" where
  "getCommentTag md5 i =
     (let optionsHash = hashString md5 (JSON_stringify_options (cdktfVersion i)
            (terraformVersion i) (workingDirectory i) (stackName i) (mode i))
      in ''<!-- terraform cdk action for options with hash '' @ optionsHash @ '' -->'')"

subsection \<open>Resolving the pull request\<close>

definition getPullNumber :: "CommentControllerConfig \<Rightarrow> (int option) async" where
  "getPullNumber config =
     (let context = ctx config in
      if truthy_number (pull_request_number (payload context))
      then (Inr (pull_request_number (payload context)), [])
      else if \<not> truthy_string (repository_full_name (payload context))
      then (Inr None,
            [Debug ''Not running on a PR, looking for a pull request number via search'',
             Debug ''Could not identify repository name, skipping comment on PR''])
      else
        let q = ''is:pr repo:'' @ template (repository_full_name (payload context)) @
                '' sha:'' @ template (sha context)
        in case search_issuesAndPullRequests (octokit config) q of
             Inl e \<Rightarrow>
               (Inl e,
                [Debug ''Not running on a PR, looking for a pull request number via search'',
                 SearchIssuesAndPullRequests q])
           | Inr data \<Rightarrow>
               (Inr (case items data of [] \<Rightarrow> None | item # _ \<Rightarrow> Some (number item)),
                [Debug ''Not running on a PR, looking for a pull request number via search'',
                 SearchIssuesAndPullRequests q,
                 Debug (''Searched for '' @ [CHR 0x27] @ q @ [CHR 0x27] @ '', got '' @
                        data_json data)]))"

subsection \<open>Looking for the previous comment\<close>

text \<open>
  \<open>octokit.paginate\<close>: requests page after page until a page has no successor and returns
  the items of all pages; a failed request ends it with the exception.
\<close>
fun paginate :: "(nat \<Rightarrow> event) \<Rightarrow> nat \<Rightarrow> 'a paged \<Rightarrow> ('a list) async" where
  "paginate req p (Fail e) = (Inl e, [req p])"
| "paginate req p (Last xs) = (Inr xs, [req p])"
| "paginate req p (More xs rest) =
     (case paginate req (Suc p) rest of
        (Inl e, t) \<Rightarrow> (Inl e, req p # t)
      | (Inr ys, t) \<Rightarrow> (Inr (xs @ ys), req p # t))"

definition fetchPreviousPrComment ::
    "Octokit \<Rightarrow> RepoRef \<Rightarrow> int \<Rightarrow> string \<Rightarrow> (Comment option) async" where
  "fetchPreviousPrComment octo r pull_number tag =
     (case paginate (ListComments r pull_number) 1 (issues_listComments octo r pull_number) of
        (Inl e, t) \<Rightarrow> (Inl e, t)
      | (Inr commentList, t) \<Rightarrow> (Inr (find (body_includes tag) commentList), t))"

text \<open>The inner loop of \<open>fetchPreviousCommitComment\<close>: the first comment of a page that matches.\<close>
fun scan_comments :: "string \<Rightarrow> Comment list \<Rightarrow> Comment option" where
  "scan_comments tag [] = None"
| "scan_comments tag (comment # comments) =
     (if body_includes tag comment then Some comment else scan_comments tag comments)"

text \<open>
  The outer loop over \<open>octokit.paginate.iterator\<close>: a page is requested when the loop asks
  for it, and the loop leaves as soon as a page gave a match.
\<close>
fun scan_pages :: "string \<Rightarrow> (nat \<Rightarrow> event) \<Rightarrow> nat \<Rightarrow> Comment paged \<Rightarrow> (Comment option) async" where
  "scan_pages tag req p (Fail e) = (Inl e, [req p])"
| "scan_pages tag req p (Last comments) = (Inr (scan_comments tag comments), [req p])"
| "scan_pages tag req p (More comments rest) =
     (case scan_comments tag comments of
        Some previousComment \<Rightarrow> (Inr (Some previousComment), [req p])
      | None \<Rightarrow> (case scan_pages tag req (Suc p) rest of (r, t) \<Rightarrow> (r, req p # t)))"

definition fetchPreviousCommitComment ::
    "Octokit \<Rightarrow> RepoRef \<Rightarrow> string \<Rightarrow> string \<Rightarrow> (Comment option) async" where
  "fetchPreviousCommitComment octo r commit_sha tag =
     scan_pages tag (ListCommentsForCommit r commit_sha) 1
       (repos_listCommentsForCommit octo r commit_sha)"

subsection \<open>Posting\<close>

definition postCommentOnPr ::
    "(string \<Rightarrow> string) \<Rightarrow> CommentControllerConfig \<Rightarrow> string \<Rightarrow> unit async" where
  "postCommentOnPr md5 config message =
     (let octo = octokit config; context = ctx config in
      case getPullNumber config of
        (Inl e, t1) \<Rightarrow> (Inl e, t1)
      | (Inr pull_number, t1) \<Rightarrow>
          (case (if truthy_number pull_number then pull_number else None) of
             None \<Rightarrow>
               (Inr (), t1 @ [Debug ''Not commenting on PR since it could not be identified''])
           | Some pull \<Rightarrow>
               let tag = getCommentTag md5 (inputs config);
                   messageWithTag = tag @ [CHR 0x0A] @ message
               in case (if updateComment (inputs config)
                        then fetchPreviousPrComment octo (repo context) pull tag
                        else (Inr None, [])) of
                    (Inl e, t2) \<Rightarrow> (Inl e, t1 @ t2)
                  | (Inr (Some previousComment), t2) \<Rightarrow>
                      (issues_updateComment octo (repo context)
                         (id_comment previousComment) messageWithTag,
                       t1 @ t2 @
                       [Debug ''Updating previous comment'',
                        UpdateComment (repo context) (id_comment previousComment)
                          messageWithTag])
                  | (Inr None, t2) \<Rightarrow>
                      (issues_createComment octo (repo context) pull messageWithTag,
                       t1 @ t2 @
                       [Debug ''Adding new comment'',
                        CreateComment (repo context) pull messageWithTag])))"

definition postCommentOnCommit ::
    "(string \<Rightarrow> string) \<Rightarrow> CommentControllerConfig \<Rightarrow> string \<Rightarrow> unit async" where
  "postCommentOnCommit md5 config message =
     (let octo = octokit config; context = ctx config in
      case (if truthy_string (sha context) then sha context else None) of
        None \<Rightarrow> (Inr (), [Debug ''Not commenting on commit because it has been removed''])
      | Some commit_sha \<Rightarrow>
          let tag = getCommentTag md5 (inputs config);
              messageWithTag = tag @ [CHR 0x0A] @ message
          in case (if updateComment (inputs config)
                   then fetchPreviousCommitComment octo (repo context) commit_sha tag
                   else (Inr None, [])) of
               (Inl e, t) \<Rightarrow> (Inl e, t)
             | (Inr (Some previousComment), t) \<Rightarrow>
                 (repos_updateCommitComment octo (repo context)
                    (id_comment previousComment) messageWithTag,
                  t @
                  [Debug ''Updating previous comment'',
                   UpdateCommitComment (repo context) (id_comment previousComment)
                     messageWithTag])
             | (Inr None, t) \<Rightarrow>
                 (repos_createCommitComment octo (repo context) commit_sha messageWithTag,
                  t @
                  [Debug ''Adding new comment'',
                   CreateCommitComment (repo context) commit_sha messageWithTag]))"

definition postComment ::
    "(string \<Rightarrow> string) \<Rightarrow> CommentControllerConfig \<Rightarrow> string \<Rightarrow> unit async" where
  "postComment md5 config message =
     (if commentMode (inputs config) = ''none''
      then (Inr (), [Debug ''Not commenting on PR by configuration''])
      else if commentMode (inputs config) = ''pr'' then postCommentOnPr md5 config message
      else if commentMode (inputs config) = ''commit'' then postCommentOnCommit md5 config message
      else (Inr (), [SetFailed (''Unrecognized comment mode '' @ commentMode (inputs config))]))"

section \<open>Notions used to state the properties\<close>

text \<open>A listing none of whose requests fails, and the items a listing serves before it ends.\<close>
fun pages_ok :: "'a paged \<Rightarrow> bool" where
  "pages_ok (Fail e) = False"
| "pages_ok (Last xs) = True"
| "pages_ok (More xs rest) = pages_ok rest"

fun items_of :: "'a paged \<Rightarrow> 'a list" where
  "items_of (Fail e) = []"
| "items_of (Last xs) = xs"
| "items_of (More xs rest) = xs @ items_of rest"

text \<open>The listing that serves the given pages, each with a link to the next, before \<open>rest\<close>.\<close>
fun pages_then :: "'a list list \<Rightarrow> 'a paged \<Rightarrow> 'a paged" where
  "pages_then [] rest = rest"
| "pages_then (xs # xss) rest = More xs (pages_then xss rest)"

subsection \<open>Concrete configurations\<close>

text \<open>A stand-in for the MD5 digest in the examples: two hexadecimal digits of the length.\<close>
definition example_digest :: "string \<Rightarrow> string" where
  "example_digest s = [hex_digit (length s div 16), hex_digit (length s)]"

definition example_inputs :: "string \<Rightarrow> bool \<Rightarrow> Inputs" where
  "example_inputs m u =
     \<lparr>commentMode = m, updateComment = u, cdktfVersion = ''0.20.0'',
      terraformVersion = ''1.7.0'', workingDirectory = ''./'', stackName = ''dev'',
      mode = ''plan-only''\<rparr>"

definition example_repo :: RepoRef where
  "example_repo = \<lparr>owner = ''acme'', repo_name = ''infra''\<rparr>"

text \<open>A platform that serves the same listing for every target and accepts every write.\<close>
definition example_octokit :: "(string \<Rightarrow> error + SearchData) \<Rightarrow> Comment paged \<Rightarrow> Octokit" where
  "example_octokit search pages =
     \<lparr>search_issuesAndPullRequests = search,
      issues_listComments = (\<lambda>r n. pages),
      repos_listCommentsForCommit = (\<lambda>r s. pages),
      issues_updateComment = (\<lambda>r c b. Inr ()),
      issues_createComment = (\<lambda>r n b. Inr ()),
      repos_updateCommitComment = (\<lambda>r c b. Inr ()),
      repos_createCommitComment = (\<lambda>r s b. Inr ())\<rparr>"

definition example_config ::
    "string \<Rightarrow> bool \<Rightarrow> string option \<Rightarrow> int option \<Rightarrow> string option \<Rightarrow>
     (string \<Rightarrow> error + SearchData) \<Rightarrow> Comment paged \<Rightarrow> CommentControllerConfig" where
  "example_config m u s pr full_name search pages =
     \<lparr>inputs = example_inputs m u,
      ctx = \<lparr>sha = s, repo = example_repo,
             payload = \<lparr>pull_request_number = pr, repository_full_name = full_name\<rparr>\<rparr>,
      octokit = example_octokit search pages\<rparr>"

text \<open>A search that fails, and one that finds the pull requests with the given numbers.\<close>
definition search_fails :: "string \<Rightarrow> error + SearchData" where
  "search_fails q = Inl (RequestError 503 ''Service Unavailable'')"

definition search_finds :: "int list \<Rightarrow> string \<Rightarrow> error + SearchData" where
  "search_finds ns q = Inr \<lparr>items = map (\<lambda>n. \<lparr>number = n\<rparr>) ns, data_json = ''{}''\<rparr>"

text \<open>The tag of the example inputs, whatever their comment mode and update flag.\<close>
definition example_tag :: string where
  "example_tag = getCommentTag example_digest (example_inputs ''none'' False)"

text \<open>A comment this configuration left earlier, and two comments of other authors.\<close>
definition tagged_comment :: "int \<Rightarrow> Comment" where
  "tagged_comment i =
     \<lparr>id_comment = i, body = Some (example_tag @ [CHR 0x0A] @ ''No changes'')\<rparr>"

definition plain_comment :: "int \<Rightarrow> Comment" where
  "plain_comment i = \<lparr>id_comment = i, body = Some ''LGTM''\<rparr>"

definition bodyless_comment :: "int \<Rightarrow> Comment" where
  "bodyless_comment i = \<lparr>id_comment = i, body = None\<rparr>"

section \<open>Properties\<close>

subsection \<open>Auxiliary facts\<close>

lemma String_includes_sublist: "String_includes s t \<longleftrightarrow> sublist t s"
  by (induction s) (auto simp: sublist_Cons_right)

lemma scan_comments_find: "scan_comments tag comments = find (body_includes tag) comments"
  by (induction comments) auto

lemma find_app:
  "find P (xs @ ys) = (case find P xs of Some x \<Rightarrow> Some x | None \<Rightarrow> find P ys)"
  by (induction xs) auto

lemma find_exists: "\<exists>x\<in>set xs. P x \<Longrightarrow> \<exists>y. find P xs = Some y"
  by (induction xs) auto

lemma paginate_ok: "pages_ok pg \<Longrightarrow> fst (paginate req p pg) = Inr (items_of pg)"
proof (induction pg arbitrary: p)
  case (More xs rest)
  then show ?case
    using More.IH [of "Suc p"] by (cases "paginate req (Suc p) rest") (auto split: sum.splits)
qed simp_all

lemma paginate_requests: "set (snd (paginate req p pg)) \<subseteq> range req"
proof (induction pg arbitrary: p)
  case (More xs rest)
  then show ?case
    using More.IH [of "Suc p"] by (cases "paginate req (Suc p) rest") (auto split: sum.splits)
qed simp_all

lemma scan_pages_ok:
  "pages_ok pg \<Longrightarrow> fst (scan_pages tag req p pg) = Inr (find (body_includes tag) (items_of pg))"
proof (induction pg arbitrary: p)
  case (More xs rest)
  then show ?case
    using More.IH [of "Suc p"]
    by (cases "scan_pages tag req (Suc p) rest")
       (auto simp: scan_comments_find find_app split: option.splits)
qed (simp_all add: scan_comments_find)

lemma scan_pages_requests: "set (snd (scan_pages tag req p pg)) \<subseteq> range req"
proof (induction pg arbitrary: p)
  case (More xs rest)
  then show ?case
    using More.IH [of "Suc p"]
    by (cases "scan_pages tag req (Suc p) rest") (auto split: option.splits)
qed simp_all

lemma getPullNumber_no_write:
  "filter is_update (snd (getPullNumber config)) = []"
  "filter is_create (snd (getPullNumber config)) = []"
  "filter is_listing (snd (getPullNumber config)) = []"
  by (auto simp: getPullNumber_def Let_def split: sum.splits)

lemma fetchPreviousPrComment_no_write:
  "filter is_update (snd (fetchPreviousPrComment octo r n tag)) = []"
  "filter is_create (snd (fetchPreviousPrComment octo r n tag)) = []"
  "filter is_search (snd (fetchPreviousPrComment octo r n tag)) = []"
  using paginate_requests [of "ListComments r n" 1 "issues_listComments octo r n"]
  by (auto simp: fetchPreviousPrComment_def filter_empty_conv split: prod.splits sum.splits)

lemma fetchPreviousCommitComment_no_write:
  "filter is_update (snd (fetchPreviousCommitComment octo r s tag)) = []"
  "filter is_create (snd (fetchPreviousCommitComment octo r s tag)) = []"
  "filter is_search (snd (fetchPreviousCommitComment octo r s tag)) = []"
  using scan_pages_requests [of tag "ListCommentsForCommit r s" 1 "repos_listCommentsForCommit octo r s"]
  by (auto simp: fetchPreviousCommitComment_def filter_empty_conv)

lemma fetchPreviousPrComment_ok:
  "pages_ok (issues_listComments octo r n) \<Longrightarrow>
   fst (fetchPreviousPrComment octo r n tag) =
     Inr (find (body_includes tag) (items_of (issues_listComments octo r n)))"
  using paginate_ok [of "issues_listComments octo r n" "ListComments r n" 1]
  by (auto simp: fetchPreviousPrComment_def split: prod.splits sum.splits)

lemma fetchPreviousCommitComment_ok:
  "pages_ok (repos_listCommentsForCommit octo r s) \<Longrightarrow>
   fst (fetchPreviousCommitComment octo r s tag) =
     Inr (find (body_includes tag) (items_of (repos_listCommentsForCommit octo r s)))"
  by (simp add: fetchPreviousCommitComment_def scan_pages_ok)

text \<open>What the two paths do once their target is resolved.\<close>

lemma postCommentOnPr_resolved:
  assumes "getPullNumber config = (Inr (Some pull), t1)" "pull \<noteq> 0"
  shows "postCommentOnPr md5 config message =
     (case (if updateComment (inputs config)
            then fetchPreviousPrComment (octokit config) (repo (ctx config)) pull
                   (getCommentTag md5 (inputs config))
            else (Inr None, [])) of
        (Inl e, t2) \<Rightarrow> (Inl e, t1 @ t2)
      | (Inr (Some previousComment), t2) \<Rightarrow>
          (issues_updateComment (octokit config) (repo (ctx config))
             (id_comment previousComment)
             (getCommentTag md5 (inputs config) @ [CHR 0x0A] @ message),
           t1 @ t2 @
           [Debug ''Updating previous comment'',
            UpdateComment (repo (ctx config)) (id_comment previousComment)
              (getCommentTag md5 (inputs config) @ [CHR 0x0A] @ message)])
      | (Inr None, t2) \<Rightarrow>
          (issues_createComment (octokit config) (repo (ctx config)) pull
             (getCommentTag md5 (inputs config) @ [CHR 0x0A] @ message),
           t1 @ t2 @
           [Debug ''Adding new comment'',
            CreateComment (repo (ctx config)) pull
              (getCommentTag md5 (inputs config) @ [CHR 0x0A] @ message)]))"
  using assms
  by (simp add: postCommentOnPr_def Let_def truthy_number_def
           split: prod.splits sum.splits option.splits)

lemma postCommentOnCommit_resolved:
  assumes "sha (ctx config) = Some commit_sha" "commit_sha \<noteq> []"
  shows "postCommentOnCommit md5 config message =
     (case (if updateComment (inputs config)
            then fetchPreviousCommitComment (octokit config) (repo (ctx config)) commit_sha
                   (getCommentTag md5 (inputs config))
            else (Inr None, [])) of
        (Inl e, t) \<Rightarrow> (Inl e, t)
      | (Inr (Some previousComment), t) \<Rightarrow>
          (repos_updateCommitComment (octokit config) (repo (ctx config))
             (id_comment previousComment)
             (getCommentTag md5 (inputs config) @ [CHR 0x0A] @ message),
           t @
           [Debug ''Updating previous comment'',
            UpdateCommitComment (repo (ctx config)) (id_comment previousComment)
              (getCommentTag md5 (inputs config) @ [CHR 0x0A] @ message)])
      | (Inr None, t) \<Rightarrow>
          (repos_createCommitComment (octokit config) (repo (ctx config)) commit_sha
             (getCommentTag md5 (inputs config) @ [CHR 0x0A] @ message),
           t @
           [Debug ''Adding new comment'',
            CreateCommitComment (repo (ctx config)) commit_sha
              (getCommentTag md5 (inputs config) @ [CHR 0x0A] @ message)]))"
  using assms
  by (simp add: postCommentOnCommit_def Let_def truthy_string_def
           split: prod.splits sum.splits option.splits)

lemma postCommentOnPr_update:
  assumes "fst (getPullNumber config) = Inr (Some pull)" "pull \<noteq> 0"
    and "updateComment (inputs config)"
    and "fst (fetchPreviousPrComment (octokit config) (repo (ctx config)) pull
           (getCommentTag md5 (inputs config))) = Inr (Some c)"
  shows "filter is_update (snd (postCommentOnPr md5 config message)) =
           [UpdateComment (repo (ctx config)) (id_comment c)
              (getCommentTag md5 (inputs config) @ [CHR 0x0A] @ message)] \<and>
         filter is_create (snd (postCommentOnPr md5 config message)) = []"
proof -
  obtain t1 where g: "getPullNumber config = (Inr (Some pull), t1)"
    using assms(1) by (cases "getPullNumber config") auto
  obtain t2 where f: "fetchPreviousPrComment (octokit config) (repo (ctx config)) pull
           (getCommentTag md5 (inputs config)) = (Inr (Some c), t2)"
    using assms(4) by (cases "fetchPreviousPrComment (octokit config) (repo (ctx config)) pull
           (getCommentTag md5 (inputs config))") auto
  have n1: "filter is_update t1 = []" "filter is_create t1 = []"
    using getPullNumber_no_write [of config] g by simp_all
  have n2: "filter is_update t2 = []" "filter is_create t2 = []"
    using fetchPreviousPrComment_no_write [of "octokit config" "repo (ctx config)" pull
        "getCommentTag md5 (inputs config)"] f by simp_all
  show ?thesis
    by (simp add: postCommentOnPr_resolved [OF g assms(2)] assms(3) f n1 n2)
qed

lemma postCommentOnPr_create:
  assumes "fst (getPullNumber config) = Inr (Some pull)" "pull \<noteq> 0"
    and "updateComment (inputs config) \<Longrightarrow>
         fst (fetchPreviousPrComment (octokit config) (repo (ctx config)) pull
           (getCommentTag md5 (inputs config))) = Inr None"
  shows "filter is_create (snd (postCommentOnPr md5 config message)) =
           [CreateComment (repo (ctx config)) pull
              (getCommentTag md5 (inputs config) @ [CHR 0x0A] @ message)] \<and>
         filter is_update (snd (postCommentOnPr md5 config message)) = []"
proof -
  obtain t1 where g: "getPullNumber config = (Inr (Some pull), t1)"
    using assms(1) by (cases "getPullNumber config") auto
  have n1: "filter is_update t1 = []" "filter is_create t1 = []"
    using getPullNumber_no_write [of config] g by simp_all
  show ?thesis
  proof (cases "updateComment (inputs config)")
    case True
    then obtain t2 where f: "fetchPreviousPrComment (octokit config) (repo (ctx config)) pull
           (getCommentTag md5 (inputs config)) = (Inr None, t2)"
      using assms(3) by (cases "fetchPreviousPrComment (octokit config) (repo (ctx config)) pull
           (getCommentTag md5 (inputs config))") auto
    have n2: "filter is_update t2 = []" "filter is_create t2 = []"
      using fetchPreviousPrComment_no_write [of "octokit config" "repo (ctx config)" pull
          "getCommentTag md5 (inputs config)"] f by simp_all
    show ?thesis
      by (simp add: postCommentOnPr_resolved [OF g assms(2)] True f n1 n2)
  next
    case False
    then show ?thesis
      by (simp add: postCommentOnPr_resolved [OF g assms(2)] n1)
  qed
qed

lemma postCommentOnCommit_update:
  assumes "sha (ctx config) = Some commit_sha" "commit_sha \<noteq> []"
    and "updateComment (inputs config)"
    and "fst (fetchPreviousCommitComment (octokit config) (repo (ctx config)) commit_sha
           (getCommentTag md5 (inputs config))) = Inr (Some c)"
  shows "filter is_update (snd (postCommentOnCommit md5 config message)) =
           [UpdateCommitComment (repo (ctx config)) (id_comment c)
              (getCommentTag md5 (inputs config) @ [CHR 0x0A] @ message)] \<and>
         filter is_create (snd (postCommentOnCommit md5 config message)) = []"
proof -
  obtain t where f: "fetchPreviousCommitComment (octokit config) (repo (ctx config)) commit_sha
           (getCommentTag md5 (inputs config)) = (Inr (Some c), t)"
    using assms(4) by (cases "fetchPreviousCommitComment (octokit config) (repo (ctx config))
           commit_sha (getCommentTag md5 (inputs config))") auto
  have n: "filter is_update t = []" "filter is_create t = []"
    using fetchPreviousCommitComment_no_write [of "octokit config" "repo (ctx config)" commit_sha
        "getCommentTag md5 (inputs config)"] f by simp_all
  show ?thesis
    by (simp add: postCommentOnCommit_resolved [OF assms(1,2)] assms(3) f n)
qed

lemma postCommentOnCommit_create:
  assumes "sha (ctx config) = Some commit_sha" "commit_sha \<noteq> []"
    and "updateComment (inputs config) \<Longrightarrow>
         fst (fetchPreviousCommitComment (octokit config) (repo (ctx config)) commit_sha
           (getCommentTag md5 (inputs config))) = Inr None"
  shows "filter is_create (snd (postCommentOnCommit md5 config message)) =
           [CreateCommitComment (repo (ctx config)) commit_sha
              (getCommentTag md5 (inputs config) @ [CHR 0x0A] @ message)] \<and>
         filter is_update (snd (postCommentOnCommit md5 config message)) = []"
proof (cases "updateComment (inputs config)")
  case True
  then obtain t where f: "fetchPreviousCommitComment (octokit config) (repo (ctx config))
         commit_sha (getCommentTag md5 (inputs config)) = (Inr None, t)"
    using assms(3) by (cases "fetchPreviousCommitComment (octokit config) (repo (ctx config))
           commit_sha (getCommentTag md5 (inputs config))") auto
  have n: "filter is_update t = []" "filter is_create t = []"
    using fetchPreviousCommitComment_no_write [of "octokit config" "repo (ctx config)" commit_sha
        "getCommentTag md5 (inputs config)"] f by simp_all
  show ?thesis
    by (simp add: postCommentOnCommit_resolved [OF assms(1,2)] True f n)
next
  case False
  then show ?thesis
    by (simp add: postCommentOnCommit_resolved [OF assms(1,2)])
qed

lemma find_None: "\<forall>x\<in>set xs. \<not> P x \<Longrightarrow> find P xs = None"
  by (induction xs) auto

lemma getPullNumber_remote:
  "filter is_remote (snd (getPullNumber config)) = filter is_search (snd (getPullNumber config))"
  "length (filter is_search (snd (getPullNumber config))) \<le> 1"
  by (simp_all add: getPullNumber_def Let_def is_remote_def split: sum.splits)

lemma postCommentOnPr_without_update:
  assumes "\<not> updateComment (inputs config)"
  shows "\<exists>rest. snd (postCommentOnPr md5 config message) = snd (getPullNumber config) @ rest \<and>
           filter is_listing rest = [] \<and> filter is_update rest = [] \<and>
           filter is_search rest = [] \<and> length (filter is_create rest) \<le> 1"
proof (cases "getPullNumber config")
  case (Pair res t1)
  show ?thesis
  proof (cases res)
    case (Inl e)
    with Pair show ?thesis by (simp add: postCommentOnPr_def)
  next
    case (Inr pull_number)
    with Pair assms show ?thesis
      by (cases "truthy_number pull_number"; cases pull_number)
         (simp_all add: postCommentOnPr_def Let_def truthy_number_def)
  qed
qed

lemma postCommentOnCommit_without_update:
  assumes "\<not> updateComment (inputs config)"
  shows "filter is_listing (snd (postCommentOnCommit md5 config message)) = [] \<and>
         filter is_update (snd (postCommentOnCommit md5 config message)) = [] \<and>
         filter is_search (snd (postCommentOnCommit md5 config message)) = [] \<and>
         length (filter is_create (snd (postCommentOnCommit md5 config message))) \<le> 1"
  using assms
  by (cases "truthy_string (sha (ctx config))"; cases "sha (ctx config)")
     (simp_all add: postCommentOnCommit_def Let_def truthy_string_def)

lemma remote_split:
  assumes "filter is_listing t = []" "filter is_update t = []"
    and "t = t1 @ rest" "filter is_search rest = []" "filter is_create t1 = []"
  shows "filter is_remote t = filter is_search t @ filter is_create t"
proof -
  have "filter is_remote t1 = filter is_search t1"
    using assms by (auto simp: is_remote_def filter_empty_conv intro!: filter_cong)
  moreover have "filter is_remote rest = filter is_create rest"
    using assms by (auto simp: is_remote_def filter_empty_conv intro!: filter_cong)
  ultimately show ?thesis using assms by simp
qed

lemma scan_pages_skip:
  "\<forall>c \<in> set (concat pages). \<not> body_includes tag c \<Longrightarrow>
   scan_pages tag req p (pages_then pages tail) =
     (case scan_pages tag req (p + length pages) tail of
        (res, t) \<Rightarrow> (res, map req [p..<p + length pages] @ t))"
proof (induction pages arbitrary: p)
  case Nil
  then show ?case by simp
next
  case (Cons page pages)
  have none: "scan_comments tag page = None"
    using Cons.prems by (simp add: scan_comments_find find_None)
  have rest: "\<forall>c \<in> set (concat pages). \<not> body_includes tag c"
    using Cons.prems by simp
  have upt: "[p..<p + length (page # pages)] = p # [Suc p..<Suc p + length pages]"
    by (simp add: upt_conv_Cons del: upt_Suc)
  obtain res t where tail: "scan_pages tag req (Suc p + length pages) tail = (res, t)"
    by (cases "scan_pages tag req (Suc p + length pages) tail")
  have "scan_pages tag req (Suc p) (pages_then pages tail) =
          (res, map req [Suc p..<Suc p + length pages] @ t)"
    using Cons.IH [OF rest, of "Suc p"] tail by simp
  then show ?case
    unfolding upt using tail by (simp add: none)
qed

lemma scan_comments_Some: "scan_comments tag comments = Some c \<Longrightarrow> body_includes tag c"
  by (induction comments) (auto split: if_splits)

lemma scan_comments_first:
  "\<forall>c \<in> set before. \<not> body_includes tag c \<Longrightarrow> body_includes tag c \<Longrightarrow>
   scan_comments tag (before @ c # after) = Some c"
  by (induction before) auto

lemma scan_pages_Some: "fst (scan_pages tag req p pg) = Inr (Some c) \<Longrightarrow> body_includes tag c"
proof (induction pg arbitrary: p)
  case (Fail e)
  then show ?case by simp
next
  case (Last comments)
  then show ?case by (simp add: scan_comments_Some)
next
  case (More comments rest)
  show ?case
  proof (cases "scan_comments tag comments")
    case None
    with More.prems have "fst (scan_pages tag req (Suc p) rest) = Inr (Some c)"
      by (cases "scan_pages tag req (Suc p) rest") simp
    then show ?thesis by (rule More.IH)
  next
    case (Some d)
    with More.prems have "d = c" by simp
    with Some show ?thesis by (simp add: scan_comments_Some)
  qed
qed

lemma fetchPreviousPrComment_Some:
  "fst (fetchPreviousPrComment octo r n tag) = Inr (Some c) \<Longrightarrow> body_includes tag c"
  by (cases "paginate (ListComments r n) 1 (issues_listComments octo r n)")
     (auto simp: fetchPreviousPrComment_def find_Some_iff split: sum.splits)

lemma fetchPreviousCommitComment_Some:
  "fst (fetchPreviousCommitComment octo r s tag) = Inr (Some c) \<Longrightarrow> body_includes tag c"
  unfolding fetchPreviousCommitComment_def by (rule scan_pages_Some)

lemma fetchPreviousCommitComment_first_match:
  assumes "\<forall>comment \<in> set (concat pages). \<not> body_includes tag comment"
    and "\<forall>comment \<in> set before. \<not> body_includes tag comment"
    and "body_includes tag c"
    and "repos_listCommentsForCommit octo r commit_sha =
           pages_then pages (More (before @ c # after) rest) \<or>
         repos_listCommentsForCommit octo r commit_sha =
           pages_then pages (Last (before @ c # after))"
  shows "fetchPreviousCommitComment octo r commit_sha tag =
           (Inr (Some c), map (ListCommentsForCommit r commit_sha) [1..<length pages + 2])"
proof -
  have m: "scan_comments tag (before @ c # after) = Some c"
    using assms(2,3) by (rule scan_comments_first)
  have u: "[1..<length pages + 2] = [1..<1 + length pages] @ [1 + length pages]"
    by simp
  from assms(4) show ?thesis
  proof
    assume "repos_listCommentsForCommit octo r commit_sha =
           pages_then pages (More (before @ c # after) rest)"
    then show ?thesis
      unfolding fetchPreviousCommitComment_def u
      by (simp add: scan_pages_skip [OF assms(1)] m del: upt_Suc)
  next
    assume "repos_listCommentsForCommit octo r commit_sha =
           pages_then pages (Last (before @ c # after))"
    then show ?thesis
      unfolding fetchPreviousCommitComment_def u
      by (simp add: scan_pages_skip [OF assms(1)] m del: upt_Suc)
  qed
qed

lemma fetchPreviousPrComment_listing:
  "filter is_listing (snd (fetchPreviousPrComment octo r n tag)) =
     snd (fetchPreviousPrComment octo r n tag)"
  using paginate_requests [of "ListComments r n" 1 "issues_listComments octo r n"]
  by (auto simp: fetchPreviousPrComment_def filter_id_conv split: prod.splits sum.splits)

lemma getPullNumber_search:
  assumes "\<not> truthy_number (pull_request_number (payload (ctx config)))"
    and "truthy_string (repository_full_name (payload (ctx config)))"
    and "search_issuesAndPullRequests (octokit config)
           (''is:pr repo:'' @ template (repository_full_name (payload (ctx config))) @
            '' sha:'' @ template (sha (ctx config))) = Inr data"
  shows "fst (getPullNumber config) =
           Inr (case items data of [] \<Rightarrow> None | item # _ \<Rightarrow> Some (number item))"
    and "filter is_search (snd (getPullNumber config)) =
           [SearchIssuesAndPullRequests
              (''is:pr repo:'' @ template (repository_full_name (payload (ctx config))) @
               '' sha:'' @ template (sha (ctx config)))]"
  using assms by (simp_all add: getPullNumber_def Let_def)

subsection \<open>Facts about the concrete configurations\<close>

lemma example_inputs_sel:
  "commentMode (example_inputs m u) = m"
  "updateComment (example_inputs m u) = u"
  by (simp_all add: example_inputs_def)

lemma example_config_sel:
  "inputs (example_config m u s pr full_name search pages) = example_inputs m u"
  "sha (ctx (example_config m u s pr full_name search pages)) = s"
  "repo (ctx (example_config m u s pr full_name search pages)) = example_repo"
  "pull_request_number (payload (ctx (example_config m u s pr full_name search pages))) = pr"
  "repository_full_name (payload (ctx (example_config m u s pr full_name search pages))) = full_name"
  "octokit (example_config m u s pr full_name search pages) = example_octokit search pages"
  by (simp_all add: example_config_def)

lemma example_octokit_sel:
  "search_issuesAndPullRequests (example_octokit search pages) = search"
  "issues_listComments (example_octokit search pages) r n = pages"
  "repos_listCommentsForCommit (example_octokit search pages) r s = pages"
  by (simp_all add: example_octokit_def)

lemma example_tag:
  "getCommentTag example_digest (example_inputs m u) = example_tag"
  by (simp add: example_tag_def getCommentTag_def example_inputs_def)

lemma tagged_comment_matches:
  "body_includes example_tag (tagged_comment i)"
  by (simp add: body_includes_def tagged_comment_def String_includes_sublist)

lemma tagged_comment_id: "id_comment (tagged_comment i) = i"
  by (simp add: tagged_comment_def)

lemma getCommentTag_Cons:
  "\<exists>rest. getCommentTag md5 i = CHR ''<'' # rest"
  by (simp add: getCommentTag_def)

lemma plain_comment_no_match: "\<not> body_includes example_tag (plain_comment k)"
proof -
  obtain rest where rest: "example_tag = CHR ''<'' # rest"
    unfolding example_tag_def using getCommentTag_Cons by blast
  show ?thesis
    by (simp add: body_includes_def plain_comment_def rest)
qed

lemma bodyless_comment_no_match: "\<not> body_includes tag (bodyless_comment k)"
  by (simp add: body_includes_def bodyless_comment_def)

lemma example_tag_value:
  "example_tag = ''<!-- terraform cdk action for options with hash 71 -->''"
  by (simp add: example_tag_def getCommentTag_def example_inputs_def hashString_def
        example_digest_def JSON_stringify_options_def json_member_def json_string_def
        json_escape_def hex_digit_def)

lemmas example_simps =
  example_inputs_sel example_config_sel example_octokit_sel example_tag
  tagged_comment_matches tagged_comment_id plain_comment_no_match bodyless_comment_no_match

subsection \<open>What \<open>postComment\<close> does\<close>

text \<open>
  C1. With "update previous comment" enabled, when the target resolves (the pull-request
  number that \<open>getPullNumber\<close> returns is a number other than 0, or the commit SHA is a
  non-empty string), the listing of the target's comments succeeds and some comment in it has
  a body that contains the identity tag, \<open>postComment\<close> issues exactly one update call and no
  create call. The update call goes to the id of the first such comment of the listing, and
  its body is the identity tag, a line break and the message.
\<close>
theorem postComment_updates_previous_comment:
  assumes "updateComment (inputs config)"
  shows
    "(let tag = getCommentTag md5 (inputs config);
          comments = issues_listComments (octokit config) (repo (ctx config)) pull
      in commentMode (inputs config) = ''pr'' \<and>
         fst (getPullNumber config) = Inr (Some pull) \<and> pull \<noteq> 0 \<and>
         pages_ok comments \<and> (\<exists>c \<in> set (items_of comments). body_includes tag c) \<longrightarrow>
         (\<exists>c. find (body_includes tag) (items_of comments) = Some c \<and>
              filter is_update (snd (postComment md5 config message)) =
                [UpdateComment (repo (ctx config)) (id_comment c) (tag @ [CHR 0x0A] @ message)]) \<and>
         filter is_create (snd (postComment md5 config message)) = []) \<and>
     (let tag = getCommentTag md5 (inputs config);
          comments = repos_listCommentsForCommit (octokit config) (repo (ctx config)) commit_sha
      in commentMode (inputs config) = ''commit'' \<and>
         sha (ctx config) = Some commit_sha \<and> commit_sha \<noteq> [] \<and>
         pages_ok comments \<and> (\<exists>c \<in> set (items_of comments). body_includes tag c) \<longrightarrow>
         (\<exists>c. find (body_includes tag) (items_of comments) = Some c \<and>
              filter is_update (snd (postComment md5 config message)) =
                [UpdateCommitComment (repo (ctx config)) (id_comment c)
                   (tag @ [CHR 0x0A] @ message)]) \<and>
         filter is_create (snd (postComment md5 config message)) = [])"
proof -
  let ?tag = "getCommentTag md5 (inputs config)"
  let ?prs = "issues_listComments (octokit config) (repo (ctx config)) pull"
  let ?cms = "repos_listCommentsForCommit (octokit config) (repo (ctx config)) commit_sha"
  have pr: "(\<exists>c. find (body_includes ?tag) (items_of ?prs) = Some c \<and>
              filter is_update (snd (postComment md5 config message)) =
                [UpdateComment (repo (ctx config)) (id_comment c) (?tag @ [CHR 0x0A] @ message)]) \<and>
         filter is_create (snd (postComment md5 config message)) = []"
    if m: "commentMode (inputs config) = ''pr''"
      and g: "fst (getPullNumber config) = Inr (Some pull)" and ne: "pull \<noteq> 0"
      and ok: "pages_ok ?prs" and ex: "\<exists>c \<in> set (items_of ?prs). body_includes ?tag c"
  proof -
    have post: "postComment md5 config message = postCommentOnPr md5 config message"
      using m by (simp add: postComment_def)
    obtain c where c: "find (body_includes ?tag) (items_of ?prs) = Some c"
      using find_exists [OF ex] by blast
    have "fst (fetchPreviousPrComment (octokit config) (repo (ctx config)) pull ?tag) =
            Inr (Some c)"
      using fetchPreviousPrComment_ok [OF ok] c by simp
    from postCommentOnPr_update [OF g ne assms this, of message] c show ?thesis
      unfolding post by blast
  qed
  have commit: "(\<exists>c. find (body_includes ?tag) (items_of ?cms) = Some c \<and>
              filter is_update (snd (postComment md5 config message)) =
                [UpdateCommitComment (repo (ctx config)) (id_comment c)
                   (?tag @ [CHR 0x0A] @ message)]) \<and>
         filter is_create (snd (postComment md5 config message)) = []"
    if m: "commentMode (inputs config) = ''commit''"
      and g: "sha (ctx config) = Some commit_sha" and ne: "commit_sha \<noteq> []"
      and ok: "pages_ok ?cms" and ex: "\<exists>c \<in> set (items_of ?cms). body_includes ?tag c"
  proof -
    have post: "postComment md5 config message = postCommentOnCommit md5 config message"
      using m by (simp add: postComment_def)
    obtain c where c: "find (body_includes ?tag) (items_of ?cms) = Some c"
      using find_exists [OF ex] by blast
    have "fst (fetchPreviousCommitComment (octokit config) (repo (ctx config)) commit_sha ?tag) =
            Inr (Some c)"
      using fetchPreviousCommitComment_ok [OF ok] c by simp
    from postCommentOnCommit_update [OF g ne assms this, of message] c show ?thesis
      unfolding post by blast
  qed
  show ?thesis
    unfolding Let_def using pr commit by blast
qed

theorem postComment_updates_previous_comment_witness:
  "filter is_update (snd (postComment example_digest
       (example_config ''pr'' True (Some ''abc123'') (Some 42) None search_fails
          (More [plain_comment 3, bodyless_comment 4] (Last [tagged_comment 7, tagged_comment 9])))
       ''Plan: 1 to add'')) =
     [UpdateComment example_repo 7
        (example_tag @ [CHR 0x0A] @ ''Plan: 1 to add'')] \<and>
   filter is_create (snd (postComment example_digest
       (example_config ''pr'' True (Some ''abc123'') (Some 42) None search_fails
          (More [plain_comment 3, bodyless_comment 4] (Last [tagged_comment 7, tagged_comment 9])))
       ''Plan: 1 to add'')) = [] \<and>
   filter is_update (snd (postComment example_digest
       (example_config ''commit'' True (Some ''abc123'') None None search_fails
          (Last [tagged_comment 7]))
       ''Plan: 1 to add'')) =
     [UpdateCommitComment example_repo 7
        (example_tag @ [CHR 0x0A] @ ''Plan: 1 to add'')] \<and>
   filter is_create (snd (postComment example_digest
       (example_config ''commit'' True (Some ''abc123'') None None search_fails
          (Last [tagged_comment 7]))
       ''Plan: 1 to add'')) = []"
  using
    postComment_updates_previous_comment [of
      "example_config ''pr'' True (Some ''abc123'') (Some 42) None search_fails
          (More [plain_comment 3, bodyless_comment 4] (Last [tagged_comment 7, tagged_comment 9]))"
      example_digest 42 "''Plan: 1 to add''" "''abc123''"]
    postComment_updates_previous_comment [of
      "example_config ''commit'' True (Some ''abc123'') None None search_fails
          (Last [tagged_comment 7])"
      example_digest 42 "''Plan: 1 to add''" "''abc123''"]
  by (simp add: example_simps getPullNumber_def truthy_number_def Let_def)

text \<open>
  C2. When the target resolves (as in C1) and either "update previous comment" is off, or
  the listing of the target's comments succeeds and no comment in it has a body that contains
  the identity tag, \<open>postComment\<close> issues exactly one create call and no update call. The
  create call goes to the resolved pull-request number (PR path) or to the commit SHA (commit
  path), and its body is the identity tag, a line break and the message.
\<close>
theorem postComment_creates_comment:
  "(let tag = getCommentTag md5 (inputs config);
        comments = issues_listComments (octokit config) (repo (ctx config)) pull
    in commentMode (inputs config) = ''pr'' \<and>
       fst (getPullNumber config) = Inr (Some pull) \<and> pull \<noteq> 0 \<and>
       (\<not> updateComment (inputs config) \<or>
        pages_ok comments \<and> (\<forall>c \<in> set (items_of comments). \<not> body_includes tag c)) \<longrightarrow>
       filter is_create (snd (postComment md5 config message)) =
         [CreateComment (repo (ctx config)) pull (tag @ [CHR 0x0A] @ message)] \<and>
       filter is_update (snd (postComment md5 config message)) = []) \<and>
   (let tag = getCommentTag md5 (inputs config);
        comments = repos_listCommentsForCommit (octokit config) (repo (ctx config)) commit_sha
    in commentMode (inputs config) = ''commit'' \<and>
       sha (ctx config) = Some commit_sha \<and> commit_sha \<noteq> [] \<and>
       (\<not> updateComment (inputs config) \<or>
        pages_ok comments \<and> (\<forall>c \<in> set (items_of comments). \<not> body_includes tag c)) \<longrightarrow>
       filter is_create (snd (postComment md5 config message)) =
         [CreateCommitComment (repo (ctx config)) commit_sha (tag @ [CHR 0x0A] @ message)] \<and>
       filter is_update (snd (postComment md5 config message)) = [])"
proof -
  let ?tag = "getCommentTag md5 (inputs config)"
  let ?prs = "issues_listComments (octokit config) (repo (ctx config)) pull"
  let ?cms = "repos_listCommentsForCommit (octokit config) (repo (ctx config)) commit_sha"
  have pr: "filter is_create (snd (postComment md5 config message)) =
         [CreateComment (repo (ctx config)) pull (?tag @ [CHR 0x0A] @ message)] \<and>
       filter is_update (snd (postComment md5 config message)) = []"
    if m: "commentMode (inputs config) = ''pr''"
      and g: "fst (getPullNumber config) = Inr (Some pull)" and ne: "pull \<noteq> 0"
      and no: "\<not> updateComment (inputs config) \<or>
        pages_ok ?prs \<and> (\<forall>c \<in> set (items_of ?prs). \<not> body_includes ?tag c)"
  proof -
    have post: "postComment md5 config message = postCommentOnPr md5 config message"
      using m by (simp add: postComment_def)
    have "fst (fetchPreviousPrComment (octokit config) (repo (ctx config)) pull ?tag) = Inr None"
      if "updateComment (inputs config)"
      using that no fetchPreviousPrComment_ok [of "octokit config" "repo (ctx config)" pull ?tag]
      by (simp add: find_None)
    from postCommentOnPr_create [OF g ne this, of message] show ?thesis
      unfolding post by blast
  qed
  have commit: "filter is_create (snd (postComment md5 config message)) =
         [CreateCommitComment (repo (ctx config)) commit_sha (?tag @ [CHR 0x0A] @ message)] \<and>
       filter is_update (snd (postComment md5 config message)) = []"
    if m: "commentMode (inputs config) = ''commit''"
      and g: "sha (ctx config) = Some commit_sha" and ne: "commit_sha \<noteq> []"
      and no: "\<not> updateComment (inputs config) \<or>
        pages_ok ?cms \<and> (\<forall>c \<in> set (items_of ?cms). \<not> body_includes ?tag c)"
  proof -
    have post: "postComment md5 config message = postCommentOnCommit md5 config message"
      using m by (simp add: postComment_def)
    have "fst (fetchPreviousCommitComment (octokit config) (repo (ctx config)) commit_sha ?tag) =
            Inr None"
      if "updateComment (inputs config)"
      using that no
        fetchPreviousCommitComment_ok [of "octokit config" "repo (ctx config)" commit_sha ?tag]
      by (simp add: find_None)
    from postCommentOnCommit_create [OF g ne this, of message] show ?thesis
      unfolding post by blast
  qed
  show ?thesis
    unfolding Let_def using pr commit by blast
qed

theorem postComment_creates_comment_witness:
  "filter is_create (snd (postComment example_digest
       (example_config ''pr'' True (Some ''abc123'') (Some 42) None search_fails
          (More [plain_comment 3, bodyless_comment 4] (Last [plain_comment 5])))
       ''Plan: 1 to add'')) =
     [CreateComment example_repo 42 (example_tag @ [CHR 0x0A] @ ''Plan: 1 to add'')] \<and>
   filter is_update (snd (postComment example_digest
       (example_config ''pr'' True (Some ''abc123'') (Some 42) None search_fails
          (More [plain_comment 3, bodyless_comment 4] (Last [plain_comment 5])))
       ''Plan: 1 to add'')) = [] \<and>
   filter is_create (snd (postComment example_digest
       (example_config ''commit'' False (Some ''abc123'') None None search_fails
          (Last [tagged_comment 7]))
       ''Plan: 1 to add'')) =
     [CreateCommitComment example_repo ''abc123'' (example_tag @ [CHR 0x0A] @ ''Plan: 1 to add'')] \<and>
   filter is_update (snd (postComment example_digest
       (example_config ''commit'' False (Some ''abc123'') None None search_fails
          (Last [tagged_comment 7]))
       ''Plan: 1 to add'')) = []"
  using
    postComment_creates_comment [of example_digest
      "example_config ''pr'' True (Some ''abc123'') (Some 42) None search_fails
          (More [plain_comment 3, bodyless_comment 4] (Last [plain_comment 5]))"
      42 "''Plan: 1 to add''" "''abc123''"]
    postComment_creates_comment [of example_digest
      "example_config ''commit'' False (Some ''abc123'') None None search_fails
          (Last [tagged_comment 7])"
      42 "''Plan: 1 to add''" "''abc123''"]
  by (simp add: example_simps getPullNumber_def truthy_number_def Let_def)

text \<open>
  C3. The identity tag depends on the five fields cdktfVersion, terraformVersion,
  workingDirectory, stackName and mode only: two inputs that agree on them get the same tag,
  whatever their other fields (comment mode, update flag, any further field of the record).
  The message is no argument of \<open>getCommentTag\<close> at all.
\<close>
theorem getCommentTag_deterministic:
  "cdktfVersion i = cdktfVersion j \<Longrightarrow> terraformVersion i = terraformVersion j \<Longrightarrow>
   workingDirectory i = workingDirectory j \<Longrightarrow> stackName i = stackName j \<Longrightarrow>
   mode i = mode j \<Longrightarrow>
     getCommentTag md5 i = getCommentTag md5 j"
  by (simp add: getCommentTag_def)

theorem getCommentTag_deterministic_witness:
  "getCommentTag example_digest (example_inputs ''pr'' True) =
     getCommentTag example_digest (example_inputs ''commit'' False) \<and>
   getCommentTag example_digest (example_inputs ''commit'' False) =
     ''<!-- terraform cdk action for options with hash 71 -->''"
proof -
  have "getCommentTag example_digest (example_inputs ''pr'' True) =
          getCommentTag example_digest (example_inputs ''commit'' False)"
    by (rule getCommentTag_deterministic) (simp_all add: example_inputs_def)
  moreover have "getCommentTag example_digest (example_inputs ''commit'' False) =
          ''<!-- terraform cdk action for options with hash 71 -->''"
    by (simp add: example_tag example_tag_value)
  ultimately show ?thesis by simp
qed

text \<open>
  C4. With the comment mode "none", \<open>postComment\<close> returns normally for every configuration
  and every message, and all it does is write one debug line: it issues no request to the
  remote platform (no search, no listing, no create, no update).
\<close>
theorem postComment_none:
  "commentMode (inputs config) = ''none'' \<Longrightarrow>
     fst (postComment md5 config message) = Inr () \<and>
     snd (postComment md5 config message) = [Debug ''Not commenting on PR by configuration''] \<and>
     filter is_remote (snd (postComment md5 config message)) = []"
  by (simp add: postComment_def is_remote_def)

theorem postComment_none_witness:
  "commentMode (inputs (example_config ''none'' True (Some ''abc123'') (Some 42) None
       search_fails (Fail (RequestError 500 ''down'')))) = ''none'' \<and>
   postComment example_digest
     (example_config ''none'' True (Some ''abc123'') (Some 42) None
        search_fails (Fail (RequestError 500 ''down''))) ''Plan: 1 to add'' =
     (Inr (), [Debug ''Not commenting on PR by configuration''])"
  using postComment_none [of "example_config ''none'' True (Some ''abc123'') (Some 42) None
        search_fails (Fail (RequestError 500 ''down''))" example_digest "''Plan: 1 to add''"]
  by (simp add: example_config_def example_inputs_def prod_eq_iff)

text \<open>
  C5. An unresolvable target is a soft no-op. On the PR path, when the event has no direct
  pull-request number and either the payload has no repository full name or the search
  returns no item, \<open>postComment\<close> returns normally and issues no write call. On the commit
  path, when the commit SHA of the context is undefined or empty, it returns normally and
  issues no remote call at all.
\<close>
theorem postComment_unresolvable_target:
  "(commentMode (inputs config) = ''pr'' \<and>
    \<not> truthy_number (pull_request_number (payload (ctx config))) \<and>
    (\<not> truthy_string (repository_full_name (payload (ctx config))) \<or>
     (\<exists>data. search_issuesAndPullRequests (octokit config)
                (''is:pr repo:'' @ template (repository_full_name (payload (ctx config))) @
                 '' sha:'' @ template (sha (ctx config))) = Inr data \<and>
             items data = [])) \<longrightarrow>
    fst (postComment md5 config message) = Inr () \<and>
    filter is_write (snd (postComment md5 config message)) = []) \<and>
   (commentMode (inputs config) = ''commit'' \<and> \<not> truthy_string (sha (ctx config)) \<longrightarrow>
    fst (postComment md5 config message) = Inr () \<and>
    filter is_remote (snd (postComment md5 config message)) = [])"
  by (auto simp: postComment_def postCommentOnPr_def postCommentOnCommit_def getPullNumber_def
        Let_def is_write_def is_remote_def truthy_number_def)

theorem postComment_unresolvable_target_witness:
  "fst (postComment example_digest
     (example_config ''pr'' True (Some ''abc123'') None (Some ''acme/infra'') (search_finds [])
        (Last [tagged_comment 7])) ''Plan: 1 to add'') = Inr () \<and>
   filter is_write (snd (postComment example_digest
     (example_config ''pr'' True (Some ''abc123'') None (Some ''acme/infra'') (search_finds [])
        (Last [tagged_comment 7])) ''Plan: 1 to add'')) = [] \<and>
   fst (postComment example_digest
     (example_config ''pr'' True (Some ''abc123'') (Some 0) None search_fails
        (Last [tagged_comment 7])) ''Plan: 1 to add'') = Inr () \<and>
   filter is_write (snd (postComment example_digest
     (example_config ''pr'' True (Some ''abc123'') (Some 0) None search_fails
        (Last [tagged_comment 7])) ''Plan: 1 to add'')) = [] \<and>
   fst (postComment example_digest
     (example_config ''commit'' True (Some []) (Some 42) None search_fails
        (Last [tagged_comment 7])) ''Plan: 1 to add'') = Inr () \<and>
   filter is_remote (snd (postComment example_digest
     (example_config ''commit'' True (Some []) (Some 42) None search_fails
        (Last [tagged_comment 7])) ''Plan: 1 to add'')) = []"
  using
    postComment_unresolvable_target [of
      "example_config ''pr'' True (Some ''abc123'') None (Some ''acme/infra'') (search_finds [])
        (Last [tagged_comment 7])" example_digest "''Plan: 1 to add''"]
    postComment_unresolvable_target [of
      "example_config ''pr'' True (Some ''abc123'') (Some 0) None search_fails
        (Last [tagged_comment 7])" example_digest "''Plan: 1 to add''"]
    postComment_unresolvable_target [of
      "example_config ''commit'' True (Some []) (Some 42) None search_fails
        (Last [tagged_comment 7])" example_digest "''Plan: 1 to add''"]
  by (simp add: example_simps truthy_number_def truthy_string_def search_finds_def)

text \<open>
  C6. On the PR path, when the event has no direct pull-request number, the payload has a
  repository full name and the search for \<open>is:pr repo:<full_name> sha:<sha>\<close> returns at
  least one item and the first item's number is not 0, \<open>getPullNumber\<close> returns that
  number, and it is the target of what follows: the listing requests (issued when
  "update previous comment" is on) are those of the previous-comment lookup on that number,
  and the write is the update of the comment that lookup found or, when it found none, the
  create on that number (no write when the lookup fails).
\<close>
theorem first_search_result_is_target:
  assumes "commentMode (inputs config) = ''pr''"
    and "\<not> truthy_number (pull_request_number (payload (ctx config)))"
    and "truthy_string (repository_full_name (payload (ctx config)))"
    and "search_issuesAndPullRequests (octokit config)
           (''is:pr repo:'' @ template (repository_full_name (payload (ctx config))) @
            '' sha:'' @ template (sha (ctx config))) = Inr data"
    and "items data = item # others"
    and "number item \<noteq> 0"
  shows "fst (getPullNumber config) = Inr (Some (number item)) \<and>
         filter is_listing (snd (postComment md5 config message)) =
           (if updateComment (inputs config)
            then snd (fetchPreviousPrComment (octokit config) (repo (ctx config)) (number item)
                        (getCommentTag md5 (inputs config)))
            else []) \<and>
         filter is_write (snd (postComment md5 config message)) =
           (case (if updateComment (inputs config)
                  then fst (fetchPreviousPrComment (octokit config) (repo (ctx config))
                              (number item) (getCommentTag md5 (inputs config)))
                  else Inr None) of
              Inl e \<Rightarrow> []
            | Inr (Some previousComment) \<Rightarrow>
                [UpdateComment (repo (ctx config)) (id_comment previousComment)
                   (getCommentTag md5 (inputs config) @ [CHR 0x0A] @ message)]
            | Inr None \<Rightarrow>
                [CreateComment (repo (ctx config)) (number item)
                   (getCommentTag md5 (inputs config) @ [CHR 0x0A] @ message)])"
proof -
  let ?tag = "getCommentTag md5 (inputs config)"
  let ?fetch = "fetchPreviousPrComment (octokit config) (repo (ctx config)) (number item) ?tag"
  have g: "fst (getPullNumber config) = Inr (Some (number item))"
    using getPullNumber_search(1) [OF assms(2-4)] assms(5) by simp
  then obtain t1 where t1: "getPullNumber config = (Inr (Some (number item)), t1)"
    by (cases "getPullNumber config") auto
  have n1: "filter is_listing t1 = []" "filter is_update t1 = []" "filter is_create t1 = []"
    using getPullNumber_no_write [of config] t1 by simp_all
  have post: "postComment md5 config message = postCommentOnPr md5 config message"
    using assms(1) by (simp add: postComment_def)
  obtain res t2 where f: "?fetch = (res, t2)"
    by (cases ?fetch)
  have n2: "filter is_listing t2 = t2" "filter is_update t2 = []" "filter is_create t2 = []"
    using fetchPreviousPrComment_listing [of "octokit config" "repo (ctx config)" "number item" ?tag]
      fetchPreviousPrComment_no_write [of "octokit config" "repo (ctx config)" "number item" ?tag]
      f by simp_all
  have w: "filter is_write t = filter is_update t @ filter is_create t"
    if "filter is_update t = []" for t
    using that by (induction t) (auto simp: is_write_def split: if_splits)
  have w1: "filter is_write t1 = []" and w2: "filter is_write t2 = []"
    using w [of t1] w [of t2] n1 n2 by simp_all
  show ?thesis
    unfolding post
    by (cases "updateComment (inputs config)"; cases res)
       (simp_all add: g postCommentOnPr_resolved [OF t1 assms(6)] f n1 n2 w1 w2 is_write_def
          split: option.splits)
qed

theorem first_search_result_is_target_witness:
  "fst (getPullNumber
     (example_config ''pr'' True (Some ''abc123'') None (Some ''acme/infra'') (search_finds [42, 43])
        (Last [plain_comment 3]))) = Inr (Some 42) \<and>
   filter is_listing (snd (postComment example_digest
     (example_config ''pr'' True (Some ''abc123'') None (Some ''acme/infra'') (search_finds [42, 43])
        (Last [plain_comment 3])) ''Plan: 1 to add'')) = [ListComments example_repo 42 1] \<and>
   filter is_write (snd (postComment example_digest
     (example_config ''pr'' True (Some ''abc123'') None (Some ''acme/infra'') (search_finds [42, 43])
        (Last [plain_comment 3])) ''Plan: 1 to add'')) =
     [CreateComment example_repo 42 (example_tag @ [CHR 0x0A] @ ''Plan: 1 to add'')]"
  using first_search_result_is_target [of
      "example_config ''pr'' True (Some ''abc123'') None (Some ''acme/infra'') (search_finds [42, 43])
        (Last [plain_comment 3])"
      "\<lparr>items = [\<lparr>number = 42\<rparr>, \<lparr>number = 43\<rparr>], data_json = ''{}''\<rparr>"
      "\<lparr>number = 42\<rparr>" "[\<lparr>number = 43\<rparr>]" example_digest "''Plan: 1 to add''"]
  by (simp add: example_simps truthy_number_def truthy_string_def search_finds_def
        fetchPreviousPrComment_def)

text \<open>
  C6 does not extend to a first search result numbered 0: that number is falsy, so the PR
  path stops before the lookup and the write, and the search stays the only remote call.
\<close>
theorem first_search_result_zero_counterexample:
  "\<not> truthy_number (pull_request_number (payload (ctx
      (example_config ''pr'' True (Some ''abc123'') None (Some ''acme/infra'') (search_finds [0, 42])
         (Last [tagged_comment 7]))))) \<and>
   truthy_string (repository_full_name (payload (ctx
      (example_config ''pr'' True (Some ''abc123'') None (Some ''acme/infra'') (search_finds [0, 42])
         (Last [tagged_comment 7]))))) \<and>
   search_issuesAndPullRequests (octokit
      (example_config ''pr'' True (Some ''abc123'') None (Some ''acme/infra'') (search_finds [0, 42])
         (Last [tagged_comment 7]))) ''is:pr repo:acme/infra sha:abc123'' =
     Inr \<lparr>items = [\<lparr>number = 0\<rparr>, \<lparr>number = 42\<rparr>], data_json = ''{}''\<rparr> \<and>
   fst (postComment example_digest
      (example_config ''pr'' True (Some ''abc123'') None (Some ''acme/infra'') (search_finds [0, 42])
         (Last [tagged_comment 7])) ''Plan: 1 to add'') = Inr () \<and>
   filter is_remote (snd (postComment example_digest
      (example_config ''pr'' True (Some ''abc123'') None (Some ''acme/infra'') (search_finds [0, 42])
         (Last [tagged_comment 7])) ''Plan: 1 to add'')) =
     [SearchIssuesAndPullRequests ''is:pr repo:acme/infra sha:abc123'']"
  by (simp add: example_simps postComment_def postCommentOnPr_def getPullNumber_def Let_def
        truthy_number_def truthy_string_def template_def search_finds_def is_remote_def)

text \<open>
  C7. On the commit path with "update previous comment" on, the scan over the pages of the
  commit's comments stops at the first comment whose body contains the identity tag. When
  the pages \<open>pages\<close> hold no match and the next page holds the comments \<open>before\<close> without
  a match, then the matching comment \<open>c\<close>, then \<open>after\<close>, the scan returns \<open>c\<close> after
  requesting the pages 1 to \<open>length pages + 1\<close> and no other, whatever follows that page
  (\<open>rest\<close>), and \<open>postComment\<close> updates \<open>c\<close>.
\<close>
theorem commit_scan_short_circuits:
  assumes "commentMode (inputs config) = ''commit''" and "updateComment (inputs config)"
    and "sha (ctx config) = Some commit_sha" and "commit_sha \<noteq> []"
    and "\<forall>comment \<in> set (concat pages). \<not> body_includes (getCommentTag md5 (inputs config)) comment"
    and "\<forall>comment \<in> set before. \<not> body_includes (getCommentTag md5 (inputs config)) comment"
    and "body_includes (getCommentTag md5 (inputs config)) c"
    and "repos_listCommentsForCommit (octokit config) (repo (ctx config)) commit_sha =
           pages_then pages (More (before @ c # after) rest) \<or>
         repos_listCommentsForCommit (octokit config) (repo (ctx config)) commit_sha =
           pages_then pages (Last (before @ c # after))"
  shows "fetchPreviousCommitComment (octokit config) (repo (ctx config)) commit_sha
           (getCommentTag md5 (inputs config)) =
           (Inr (Some c),
            map (ListCommentsForCommit (repo (ctx config)) commit_sha) [1..<length pages + 2]) \<and>
         snd (postComment md5 config message) =
           map (ListCommentsForCommit (repo (ctx config)) commit_sha) [1..<length pages + 2] @
           [Debug ''Updating previous comment'',
            UpdateCommitComment (repo (ctx config)) (id_comment c)
              (getCommentTag md5 (inputs config) @ [CHR 0x0A] @ message)]"
proof -
  have f: "fetchPreviousCommitComment (octokit config) (repo (ctx config)) commit_sha
           (getCommentTag md5 (inputs config)) =
           (Inr (Some c),
            map (ListCommentsForCommit (repo (ctx config)) commit_sha) [1..<length pages + 2])"
    using assms(5-8) by (rule fetchPreviousCommitComment_first_match)
  have "postComment md5 config message = postCommentOnCommit md5 config message"
    using assms(1) by (simp add: postComment_def)
  then show ?thesis
    using f assms(2) by (simp add: postCommentOnCommit_resolved [OF assms(3,4)])
qed

theorem commit_scan_short_circuits_witness:
  "snd (postComment example_digest
     (example_config ''commit'' True (Some ''abc123'') None None search_fails
        (More [plain_comment 3] (More [bodyless_comment 4]
           (More [plain_comment 5, tagged_comment 7, tagged_comment 9]
              (Fail (RequestError 500 ''Internal Server Error''))))))
     ''Plan: 1 to add'') =
     [ListCommentsForCommit example_repo ''abc123'' 1,
      ListCommentsForCommit example_repo ''abc123'' 2,
      ListCommentsForCommit example_repo ''abc123'' 3,
      Debug ''Updating previous comment'',
      UpdateCommitComment example_repo 7 (example_tag @ [CHR 0x0A] @ ''Plan: 1 to add'')]"
  using commit_scan_short_circuits [of
      "example_config ''commit'' True (Some ''abc123'') None None search_fails
        (More [plain_comment 3] (More [bodyless_comment 4]
           (More [plain_comment 5, tagged_comment 7, tagged_comment 9]
              (Fail (RequestError 500 ''Internal Server Error'')))))"
      "''abc123''" "[[plain_comment 3], [bodyless_comment 4]]" example_digest
      "[plain_comment 5]" "tagged_comment 7" "[tagged_comment 9]"
      "Fail (RequestError 500 ''Internal Server Error'')" "''Plan: 1 to add''"]
  by (simp add: example_simps upt_rec_numeral)

text \<open>
  C8. For every comment mode other than "none", "pr" and "commit", \<open>postComment\<close> returns
  normally, and all it does is report a failed step whose message names the unrecognized
  mode: it issues no request to the remote platform.
\<close>
theorem postComment_unrecognized_mode:
  "commentMode (inputs config) \<notin> {''none'', ''pr'', ''commit''} \<Longrightarrow>
     fst (postComment md5 config message) = Inr () \<and>
     snd (postComment md5 config message) =
       [SetFailed (''Unrecognized comment mode '' @ commentMode (inputs config))] \<and>
     filter is_remote (snd (postComment md5 config message)) = []"
  by (simp add: postComment_def is_remote_def)

theorem postComment_unrecognized_mode_witness:
  "postComment example_digest
     (example_config ''issue'' True (Some ''abc123'') (Some 42) None
        search_fails (Fail (RequestError 500 ''down''))) ''Plan: 1 to add'' =
     (Inr (), [SetFailed ''Unrecognized comment mode issue''])"
  using postComment_unrecognized_mode [of "example_config ''issue'' True (Some ''abc123'') (Some 42) None
        search_fails (Fail (RequestError 500 ''down''))" example_digest "''Plan: 1 to add''"]
  by (simp add: example_config_def example_inputs_def prod_eq_iff)

text \<open>
  C9. With "update previous comment" off, \<open>postComment\<close> never issues a listing call (and
  no update call) on either path: its remote calls are the searches followed by the creates,
  at most one of each.
\<close>
theorem postComment_without_update_never_lists:
  "\<not> updateComment (inputs config) \<Longrightarrow>
     filter is_listing (snd (postComment md5 config message)) = [] \<and>
     filter is_update (snd (postComment md5 config message)) = [] \<and>
     filter is_remote (snd (postComment md5 config message)) =
       filter is_search (snd (postComment md5 config message)) @
       filter is_create (snd (postComment md5 config message)) \<and>
     length (filter is_search (snd (postComment md5 config message))) \<le> 1 \<and>
     length (filter is_create (snd (postComment md5 config message))) \<le> 1"
proof -
  assume no: "\<not> updateComment (inputs config)"
  consider (none) "commentMode (inputs config) = ''none''"
    | (pr) "commentMode (inputs config) = ''pr''"
    | (commit) "commentMode (inputs config) = ''commit''"
    | (other) "commentMode (inputs config) \<notin> {''none'', ''pr'', ''commit''}"
    by auto
  then show ?thesis
  proof cases
    case none
    then show ?thesis by (simp add: postComment_def is_remote_def)
  next
    case pr
    then have post: "postComment md5 config message = postCommentOnPr md5 config message"
      by (simp add: postComment_def)
    obtain rest where rest:
      "snd (postCommentOnPr md5 config message) = snd (getPullNumber config) @ rest"
      "filter is_listing rest = []" "filter is_update rest = []"
      "filter is_search rest = []" "length (filter is_create rest) \<le> 1"
      using postCommentOnPr_without_update [OF no] by blast
    have l: "filter is_listing (snd (postCommentOnPr md5 config message)) = []"
      and u: "filter is_update (snd (postCommentOnPr md5 config message)) = []"
      using rest getPullNumber_no_write [of config] by simp_all
    have r: "filter is_remote (snd (postCommentOnPr md5 config message)) =
        filter is_search (snd (postCommentOnPr md5 config message)) @
        filter is_create (snd (postCommentOnPr md5 config message))"
      using remote_split [OF l u rest(1) rest(4) getPullNumber_no_write(2)] .
    show ?thesis
      unfolding post using l u r rest getPullNumber_remote(2) [of config]
        getPullNumber_no_write [of config] by simp
  next
    case commit
    then have post: "postComment md5 config message = postCommentOnCommit md5 config message"
      by (simp add: postComment_def)
    note c = postCommentOnCommit_without_update [OF no, of md5 message]
    have "filter is_remote (snd (postCommentOnCommit md5 config message)) =
        filter is_search (snd (postCommentOnCommit md5 config message)) @
        filter is_create (snd (postCommentOnCommit md5 config message))"
      using remote_split [of "snd (postCommentOnCommit md5 config message)" "[]"
          "snd (postCommentOnCommit md5 config message)"] c by simp
    then show ?thesis
      unfolding post using c by simp
  next
    case other
    then show ?thesis by (simp add: postComment_def is_remote_def)
  qed
qed

theorem postComment_without_update_never_lists_witness:
  "filter is_listing (snd (postComment example_digest
     (example_config ''pr'' False (Some ''abc123'') None (Some ''acme/infra'') (search_finds [42])
        (Last [tagged_comment 7])) ''Plan: 1 to add'')) = [] \<and>
   filter is_remote (snd (postComment example_digest
     (example_config ''pr'' False (Some ''abc123'') None (Some ''acme/infra'') (search_finds [42])
        (Last [tagged_comment 7])) ''Plan: 1 to add'')) =
     [SearchIssuesAndPullRequests ''is:pr repo:acme/infra sha:abc123'',
      CreateComment example_repo 42 (example_tag @ [CHR 0x0A] @ ''Plan: 1 to add'')]"
  using postComment_without_update_never_lists [of
      "example_config ''pr'' False (Some ''abc123'') None (Some ''acme/infra'') (search_finds [42])
        (Last [tagged_comment 7])" example_digest "''Plan: 1 to add''"]
  by (simp add: example_simps postComment_def postCommentOnPr_def getPullNumber_def Let_def
        truthy_number_def truthy_string_def template_def search_finds_def is_remote_def)

text \<open>
  C10. In both scans the match predicate is "the body exists and contains the identity
  tag": a comment without a body is never returned by either scan, and it makes neither fail:
  whenever the listing requests succeed, each scan returns normally, with the first comment
  of the listing that has a body containing the tag (or none).
\<close>
theorem previous_comment_scan_skips_bodyless:
  "(body_includes tag comment \<longleftrightarrow> (\<exists>b. body comment = Some b \<and> sublist tag b)) \<and>
   (body comment = None \<longrightarrow>
      fst (fetchPreviousPrComment octo r n tag) \<noteq> Inr (Some comment) \<and>
      fst (fetchPreviousCommitComment octo r s tag) \<noteq> Inr (Some comment)) \<and>
   (pages_ok (issues_listComments octo r n) \<longrightarrow>
      fst (fetchPreviousPrComment octo r n tag) =
        Inr (find (body_includes tag) (items_of (issues_listComments octo r n)))) \<and>
   (pages_ok (repos_listCommentsForCommit octo r s) \<longrightarrow>
      fst (fetchPreviousCommitComment octo r s tag) =
        Inr (find (body_includes tag) (items_of (repos_listCommentsForCommit octo r s))))"
proof -
  have "body_includes tag comment \<longleftrightarrow> (\<exists>b. body comment = Some b \<and> sublist tag b)"
    by (simp add: body_includes_def String_includes_sublist split: option.splits)
  moreover have "fst (fetchPreviousPrComment octo r n tag) \<noteq> Inr (Some comment)"
    and "fst (fetchPreviousCommitComment octo r s tag) \<noteq> Inr (Some comment)"
    if "body comment = None"
    using that fetchPreviousPrComment_Some [of octo r n tag comment]
      fetchPreviousCommitComment_Some [of octo r s tag comment]
    by (auto simp: body_includes_def)
  ultimately show ?thesis
    using fetchPreviousPrComment_ok [of octo r n tag]
      fetchPreviousCommitComment_ok [of octo r s tag]
    by blast
qed

theorem previous_comment_scan_skips_bodyless_witness:
  "\<not> body_includes example_tag (bodyless_comment 4) \<and>
   fst (fetchPreviousPrComment
          (example_octokit search_fails (More [bodyless_comment 4] (Last [tagged_comment 7])))
          example_repo 42 example_tag) = Inr (Some (tagged_comment 7)) \<and>
   fst (fetchPreviousCommitComment
          (example_octokit search_fails (More [bodyless_comment 4] (Last [tagged_comment 7])))
          example_repo ''abc123'' example_tag) = Inr (Some (tagged_comment 7))"
  using previous_comment_scan_skips_bodyless [of example_tag "bodyless_comment 4"
      "example_octokit search_fails (More [bodyless_comment 4] (Last [tagged_comment 7]))"
      example_repo 42 "''abc123''"]
  by (simp add: example_simps)

end
